theory Spec2Isabelle
  imports Main "HOL-Library.Word" "HOL-Library.Sublist"
begin

section \<open>The mock communication handler of \<^verbatim>\<open>pslab/mock_handler.py\<close>\<close>

text \<open>
  The class \<^verbatim>\<open>MockHandler\<close> is embedded as a record of its four data attributes and one
  HOL function per method. A method that can raise returns the outcome (\<open>Inl\<close> the
  exception, \<open>Inr\<close> the returned value) paired with the handler after the call, so that
  the state left behind by a raise is part of the model. A method that has no raising
  path returns the handler alone. The \<^verbatim>\<open>logger\<close> attribute only emits diagnostics and is
  never read back; it is not part of the record.
\<close>

subsection \<open>Data\<close>

type_synonym byte = "8 word"
type_synonym bytes = "byte list"

text \<open>
  The exceptions the methods can raise: \<^verbatim>\<open>RuntimeError\<close> (the two "closed MockHandler"
  raises of \<^verbatim>\<open>write\<close> and \<^verbatim>\<open>read\<close>), \<^verbatim>\<open>TypeError\<close> (raised by \<^verbatim>\<open>send_byte\<close>),
  \<^verbatim>\<open>ValueError\<close> (raised by \<^verbatim>\<open>bytes([val])\<close> for \<^verbatim>\<open>val\<close> outside \<^verbatim>\<open>range(256)\<close>, and by
  the conversion of a very long \<^verbatim>\<open>int\<close> to text) and
  \<^verbatim>\<open>struct.error\<close> (raised by \<^verbatim>\<open>struct.pack\<close> and \<^verbatim>\<open>struct.unpack\<close>).
\<close>

datatype error = RuntimeError | TypeError | ValueError | StructError

text \<open>
  \<^verbatim>\<open>response_map\<close> is a Python \<^verbatim>\<open>dict\<close>, whose iteration order is the insertion order of
  its keys; \<^verbatim>\<open>write\<close> depends on that order, so the dictionary is an association list in
  insertion order.
\<close>

record MockHandler =
  connected :: bool
  port :: string
  response_map :: "(bytes \<times> bytes) list"
  read_buffer :: bytes

text \<open>
  The values \<^verbatim>\<open>send_byte\<close> can be handed: an \<^verbatim>\<open>int\<close> (which includes \<^verbatim>\<open>bool\<close>), a
  \<^verbatim>\<open>bytes\<close> object, and, as objects that are neither, a \<^verbatim>\<open>str\<close>, a \<^verbatim>\<open>bytearray\<close> and
  \<^verbatim>\<open>None\<close>.
\<close>

datatype pyval =
    isinstance_int: PyInt int
  | isinstance_bytes: PyBytes bytes
  | PyStr string
  | PyBytearray bytes
  | PyNone

subsection \<open>Python primitives used by the methods\<close>

text \<open>\<^verbatim>\<open>data.startswith(command)\<close> on \<^verbatim>\<open>bytes\<close>.\<close>

definition startswith :: "bytes \<Rightarrow> bytes \<Rightarrow> bool" where
  "startswith data command = prefix command data"

text \<open>
  The slices \<^verbatim>\<open>buf[:size]\<close> and \<^verbatim>\<open>buf[size:]\<close>: a negative bound counts from the end,
  and every bound is clamped to \<^verbatim>\<open>0 .. len(buf)\<close>.
\<close>

definition slice_bound :: "'a list \<Rightarrow> int \<Rightarrow> nat" where
  "slice_bound buf i =
     (let n = int (length buf); j = (if i < 0 then i + n else i)
      in nat (if j < 0 then 0 else if n < j then n else j))"

definition slice_to :: "'a list \<Rightarrow> int \<Rightarrow> 'a list" where
  "slice_to buf i = take (slice_bound buf i) buf"

definition slice_from :: "'a list \<Rightarrow> int \<Rightarrow> 'a list" where
  "slice_from buf i = drop (slice_bound buf i) buf"

text \<open>\<^verbatim>\<open>d[k] = v\<close> on a \<^verbatim>\<open>dict\<close>: an existing key keeps its place, a new key goes last.\<close>

fun dict_set :: "('k \<times> 'v) list \<Rightarrow> 'k \<Rightarrow> 'v \<Rightarrow> ('k \<times> 'v) list" where
  "dict_set [] k v = [(k, v)]"
| "dict_set ((k', v') # rest) k v =
     (if k' = k then (k, v) # rest else (k', v') # dict_set rest k v)"

text \<open>\<^verbatim>\<open>bytes([val])\<close> for an \<^verbatim>\<open>int\<close>.\<close>

definition bytes_of_int :: "int \<Rightarrow> error + bytes" where
  "bytes_of_int val =
     (if 0 \<le> val \<and> val < 256 then Inr [word_of_int val] else Inl ValueError)"

text \<open>\<^verbatim>\<open>struct.pack('<H', val)\<close> and \<^verbatim>\<open>struct.unpack('<H', data)[0]\<close>.\<close>

definition pack_H :: "int \<Rightarrow> error + bytes" where
  "pack_H val =
     (if 0 \<le> val \<and> val \<le> 65535
      then Inr [word_of_int (val mod 256), word_of_int (val div 256)]
      else Inl StructError)"

fun unpack_H :: "bytes \<Rightarrow> error + int" where
  "unpack_H [lo, hi] = Inr (uint lo + 256 * uint hi)"
| "unpack_H _ = Inl StructError"

text \<open>
  The conversion of an \<^verbatim>\<open>int\<close> to its decimal text, as an f-string field \<^verbatim>\<open>{size}\<close> does
  it. CPython refuses the conversion with a \<^verbatim>\<open>ValueError\<close> when the number has more
  decimal digits than \<^verbatim>\<open>sys.int_max_str_digits\<close>, 4300 unless the interpreter is configured
  otherwise: \<^verbatim>\<open>10**4299\<close> is converted and \<^verbatim>\<open>10**4300\<close> is not. Only the outcome is
  modelled, not the text.
\<close>

definition int_max_str_digits :: nat where
  "int_max_str_digits = 4300"

definition format_int :: "int \<Rightarrow> error + unit" where
  "format_int n = (if \<bar>n\<bar> < 10 ^ int_max_str_digits then Inr () else Inl ValueError)"

subsection \<open>Methods\<close>

text \<open>\<^verbatim>\<open>__init__(port=None)\<close>.\<close>

definition init :: "string option \<Rightarrow> MockHandler" where
  "init p =
     \<lparr>connected = False,
      port = (case p of None \<Rightarrow> ''MOCK_PORT''
              | Some q \<Rightarrow> if q = [] then ''MOCK_PORT'' else q),
      response_map = [],
      read_buffer = []\<rparr>"

text \<open>
  \<^verbatim>\<open>open(port=None)\<close>. The test \<^verbatim>\<open>if port:\<close> is Python truthiness: \<^verbatim>\<open>None\<close> and the
  empty string are both false. \<^verbatim>\<open>__init__\<close> above applies the same test in
  \<^verbatim>\<open>port or "MOCK_PORT"\<close>.
\<close>

definition "open" :: "MockHandler \<Rightarrow> string option \<Rightarrow> MockHandler" where
  "open s p =
     (case p of None \<Rightarrow> s
      | Some q \<Rightarrow> if q = [] then s else s\<lparr>port := q\<rparr>)\<lparr>connected := True\<rparr>"

definition close :: "MockHandler \<Rightarrow> MockHandler" where
  "close s = s\<lparr>connected := False, read_buffer := []\<rparr>"

text \<open>
  The \<^verbatim>\<open>for\<close> loop of \<^verbatim>\<open>write\<close> over \<^verbatim>\<open>response_map.items()\<close>: it returns the buffer and
  \<^verbatim>\<open>match_found\<close>, and the \<^verbatim>\<open>break\<close> is the branch without a recursive call.
\<close>

fun scan_responses :: "(bytes \<times> bytes) list \<Rightarrow> bytes \<Rightarrow> bytes \<Rightarrow> bytes \<times> bool" where
  "scan_responses [] data buf = (buf, False)"
| "scan_responses ((command, response) # rest) data buf =
     (if startswith data command then (buf @ response, True)
      else scan_responses rest data buf)"

definition "write" :: "MockHandler \<Rightarrow> bytes \<Rightarrow> (error + int) \<times> MockHandler" where
  "write s data =
     (if \<not> connected s then (Inl RuntimeError, s)
      else case scan_responses (response_map s) data (read_buffer s) of
             (buf, match_found) \<Rightarrow> (Inr (int (length data)), s\<lparr>read_buffer := buf\<rparr>))"

text \<open>
  \<^verbatim>\<open>read(size=1)\<close>. In the short-read branch the argument of \<^verbatim>\<open>logger.warning\<close>, the f-string
  with the fields \<^verbatim>\<open>{size}\<close> and \<^verbatim>\<open>{available}\<close>, is evaluated first, before the buffer is
  copied and cleared; a \<^verbatim>\<open>ValueError\<close> from it leaves the handler as it was.
\<close>

definition "read" :: "MockHandler \<Rightarrow> int \<Rightarrow> (error + bytes) \<times> MockHandler" where
  "read s sz =
     (if \<not> connected s then (Inl RuntimeError, s)
      else let available = int (length (read_buffer s)) in
        if available < sz then
          (case format_int sz of
             Inl e \<Rightarrow> (Inl e, s)
           | Inr _ \<Rightarrow>
               (case format_int available of
                  Inl e \<Rightarrow> (Inl e, s)
                | Inr _ \<Rightarrow> (Inr (read_buffer s), s\<lparr>read_buffer := []\<rparr>)))
        else (Inr (slice_to (read_buffer s) sz),
              s\<lparr>read_buffer := slice_from (read_buffer s) sz\<rparr>))"

text \<open>
  The class body defines \<^verbatim>\<open>get_ack\<close> twice; the second definition replaces the first
  in the class namespace, so the method returns \<^verbatim>\<open>True\<close> and touches nothing.
\<close>

definition get_ack :: "MockHandler \<Rightarrow> bool \<times> MockHandler" where
  "get_ack s = (True, s)"

definition clear_buffer :: "MockHandler \<Rightarrow> MockHandler" where
  "clear_buffer s = s\<lparr>read_buffer := []\<rparr>"

text \<open>A call \<^verbatim>\<open>self.write(...)\<close> whose returned count is dropped.\<close>

fun discard :: "(error + 'a) \<times> MockHandler \<Rightarrow> (error + unit) \<times> MockHandler" where
  "discard (Inl e, s) = (Inl e, s)"
| "discard (Inr v, s) = (Inr (), s)"

fun send_byte :: "MockHandler \<Rightarrow> pyval \<Rightarrow> (error + unit) \<times> MockHandler" where
  "send_byte s (PyInt val) =
     (case bytes_of_int val of
        Inl e \<Rightarrow> (Inl e, s)
      | Inr b \<Rightarrow> discard (write s b))"
| "send_byte s (PyBytes val) = discard (write s val)"
| "send_byte s _ = (Inl TypeError, s)"

definition send_int :: "MockHandler \<Rightarrow> int \<Rightarrow> (error + unit) \<times> MockHandler" where
  "send_int s val =
     (case pack_H val of
        Inl e \<Rightarrow> (Inl e, s)
      | Inr b \<Rightarrow> discard (write s b))"

definition read_byte :: "MockHandler \<Rightarrow> (error + int) \<times> MockHandler" where
  "read_byte s =
     (case read s 1 of
        (Inl e, s') \<Rightarrow> (Inl e, s')
      | (Inr data, s') \<Rightarrow>
          (case data of [] \<Rightarrow> (Inr 0, s') | b # _ \<Rightarrow> (Inr (uint b), s')))"

definition read_int :: "MockHandler \<Rightarrow> (error + int) \<times> MockHandler" where
  "read_int s =
     (case read s 2 of
        (Inl e, s') \<Rightarrow> (Inl e, s')
      | (Inr data, s') \<Rightarrow>
          (if length data < 2 then (Inr 0, s')
           else case unpack_H data of
                  Inl e \<Rightarrow> (Inl e, s')
                | Inr v \<Rightarrow> (Inr v, s')))"

definition register_response :: "MockHandler \<Rightarrow> bytes \<Rightarrow> bytes \<Rightarrow> MockHandler" where
  "register_response s command response =
     s\<lparr>response_map := dict_set (response_map s) command response\<rparr>"

definition inject_data :: "MockHandler \<Rightarrow> bytes \<Rightarrow> MockHandler" where
  "inject_data s data = s\<lparr>read_buffer := read_buffer s @ data\<rparr>"

subsection \<open>Handlers used as concrete inputs\<close>

text \<open>A freshly constructed handler, opened.\<close>

definition fresh_open :: MockHandler where
  "fresh_open = open (init None) None"

text \<open>
  An opened handler on which \<^verbatim>\<open>register_response(b"\x01", b"\xAA")\<close> and then
  \<^verbatim>\<open>register_response(b"\x01\x02", b"\xBB")\<close> were called.
\<close>

definition two_keys :: MockHandler where
  "two_keys =
     open (register_response (register_response (init None) [1] [0xAA]) [1, 2] [0xBB]) None"

section \<open>Properties\<close>

subsection \<open>Slices with a non-negative bound\<close>

lemma slice_bound_nonneg: "0 \<le> i \<Longrightarrow> slice_bound buf i = min (nat i) (length buf)"
  by (auto simp: slice_bound_def Let_def)

lemma slice_to_nonneg: "0 \<le> i \<Longrightarrow> slice_to buf i = take (nat i) buf"
  by (simp add: slice_to_def slice_bound_nonneg min_def)

lemma slice_from_nonneg: "0 \<le> i \<Longrightarrow> slice_from buf i = drop (nat i) buf"
  by (simp add: slice_from_def slice_bound_nonneg min_def)

subsection \<open>Raw reads\<close>

lemma str_limit_large: "(100000::int) \<le> 10 ^ int_max_str_digits"
proof -
  have "(5::nat) \<le> int_max_str_digits"
    by (simp add: int_max_str_digits_def)
  then have "(10::int) ^ 5 \<le> 10 ^ int_max_str_digits"
    by (rule power_increasing) simp
  then show ?thesis by simp
qed

lemma format_int_small: "\<bar>n\<bar> < 100000 \<Longrightarrow> format_int n = Inr ()"
  using str_limit_large by (simp add: format_int_def)

lemma format_int_below: "0 \<le> a \<Longrightarrow> a < b \<Longrightarrow> b < 10 ^ int_max_str_digits \<Longrightarrow> format_int a = Inr ()"
  by (simp add: format_int_def)

lemma read_short:
  assumes "connected s" and "int (length (read_buffer s)) < n" and "n < 10 ^ int_max_str_digits"
  shows "read s n = (Inr (read_buffer s), s\<lparr>read_buffer := []\<rparr>)"
proof -
  have "format_int n = Inr ()"
    using assms(2,3) by (simp add: format_int_def)
  moreover have "format_int (int (length (read_buffer s))) = Inr ()"
    using assms(2,3) by (intro format_int_below [of _ n]) simp_all
  ultimately show ?thesis
    using assms(1,2) by (simp add: read_def)
qed

lemma read_short_oversized:
  assumes "connected s" and "int (length (read_buffer s)) < n" and "10 ^ int_max_str_digits \<le> n"
  shows "read s n = (Inl ValueError, s)"
proof -
  have "format_int n = Inl ValueError"
    using assms(3) by (simp add: format_int_def)
  then show ?thesis
    using assms(1,2) by (simp add: read_def)
qed

lemma read_enough:
  assumes "connected s" and "0 \<le> n" and "n \<le> int (length (read_buffer s))"
  shows "read s n = (Inr (take (nat n) (read_buffer s)),
                     s\<lparr>read_buffer := drop (nat n) (read_buffer s)\<rparr>)"
  using assms by (simp add: read_def slice_to_nonneg slice_from_nonneg)

text \<open>
  For every size \<open>n \<ge> 0\<close> that the interpreter can print, that is \<open>n < 10 ^ 4300\<close>,
  \<^verbatim>\<open>read(n)\<close> on a connected handler is the non-blocking read: it returns at most \<open>n\<close>
  bytes, the whole buffer (left empty) when it holds fewer than \<open>n\<close> bytes, and otherwise
  its first \<open>n\<close> bytes, which are removed from the front.
\<close>

lemma read_below_limit:
  assumes "connected s" and "0 \<le> n" and "n < 10 ^ int_max_str_digits"
  shows "\<exists>out s'. read s n = (Inr out, s')
           \<and> int (length out) \<le> n
           \<and> (int (length (read_buffer s)) < n \<longrightarrow>
                out = read_buffer s \<and> s' = s\<lparr>read_buffer := []\<rparr>)
           \<and> (n \<le> int (length (read_buffer s)) \<longrightarrow>
                out = take (nat n) (read_buffer s) \<and> int (length out) = n
                \<and> s' = s\<lparr>read_buffer := drop (nat n) (read_buffer s)\<rparr>
                \<and> read_buffer s = out @ read_buffer s')"
proof (cases "int (length (read_buffer s)) < n")
  case True
  with assms show ?thesis by (simp add: read_short)
next
  case False
  with assms show ?thesis by (simp add: read_enough)
qed

text \<open>
  Claim C1. On a connected handler and for every size \<open>n \<ge> 0\<close>, \<^verbatim>\<open>read(n)\<close> returns at
  most \<open>n\<close> bytes, and with fewer than \<open>n\<close> bytes buffered it returns exactly those and
  leaves the buffer empty. The code does not do so for \<open>n = 10 ^ 4300\<close>: on an opened
  handler holding \<^verbatim>\<open>b"\x01\x02\x03"\<close> the short-read branch is taken, the warning text
  cannot be built, and the call raises \<^verbatim>\<open>ValueError\<close> with the three bytes still in the
  buffer. The comment in that branch, "Return what we have, then empty the buffer", says
  what the claim says.
\<close>

theorem read_oversized_raises:
  "connected (inject_data fresh_open [1, 2, 3])
   \<and> (0::int) \<le> 10 ^ int_max_str_digits
   \<and> int (length (read_buffer (inject_data fresh_open [1, 2, 3]))) < 10 ^ int_max_str_digits
   \<and> read (inject_data fresh_open [1, 2, 3]) (10 ^ int_max_str_digits)
       = (Inl ValueError, inject_data fresh_open [1, 2, 3])
   \<and> read_buffer (snd (read (inject_data fresh_open [1, 2, 3]) (10 ^ int_max_str_digits)))
       = [1, 2, 3]"
proof -
  let ?s = "inject_data fresh_open [1, 2, 3]"
  have c: "connected ?s"
    by (simp add: inject_data_def fresh_open_def open_def init_def)
  have b: "read_buffer ?s = [1, 2, 3]"
    by (simp add: inject_data_def fresh_open_def open_def init_def)
  have l: "int (length (read_buffer ?s)) < 10 ^ int_max_str_digits"
    using str_limit_large by (simp add: b)
  have "read ?s (10 ^ int_max_str_digits) = (Inl ValueError, ?s)"
    using c l by (rule read_short_oversized) simp
  with c l b show ?thesis by simp
qed

subsection \<open>Raw writes\<close>

lemma scan_no_match:
  "\<forall>(k, r) \<in> set m. \<not> startswith d k \<Longrightarrow> scan_responses m d buf = (buf, False)"
  by (induction m) auto

lemma scan_first_match:
  "\<forall>(k', r') \<in> set pre. \<not> startswith d k' \<Longrightarrow> startswith d k
     \<Longrightarrow> scan_responses (pre @ (k, r) # post) d buf = (buf @ r, True)"
  by (induction pre) auto

lemma two_keys_eq:
  "two_keys = \<lparr>connected = True, port = ''MOCK_PORT'',
                response_map = [([1], [0xAA]), ([1, 2], [0xBB])], read_buffer = []\<rparr>"
  by (simp add: two_keys_def open_def register_response_def init_def)

lemma fresh_open_eq:
  "fresh_open = \<lparr>connected = True, port = ''MOCK_PORT'', response_map = [], read_buffer = []\<rparr>"
  by (simp add: fresh_open_def open_def init_def)

text \<open>
  Claim C2, as stated: every registered pair \<open>(k, r)\<close> whose key is a prefix of the
  written data has exactly \<open>r\<close> appended. It fails for a pair that is not the first match:
  with \<^verbatim>\<open>b"\x01"\<close> registered before \<^verbatim>\<open>b"\x01\x02"\<close>, writing \<^verbatim>\<open>b"\x01\x02"\<close> appends the
  response \<^verbatim>\<open>b"\xAA"\<close> of the first key, not the response \<^verbatim>\<open>b"\xBB"\<close> of the second, although
  the second is registered and is a prefix of the data.
\<close>

theorem write_every_pair_counterexample:
  "connected two_keys
   \<and> ([1, 2], [0xBB]) \<in> set (response_map two_keys)
   \<and> startswith [1, 2] [1, 2]
   \<and> read_buffer (snd (write two_keys [1, 2])) = read_buffer two_keys @ [0xAA]
   \<and> read_buffer (snd (write two_keys [1, 2])) \<noteq> read_buffer two_keys @ [0xBB]"
  by (simp add: two_keys_eq write_def startswith_def)

text \<open>
  Claim C2, amended. On a connected handler, let \<open>(k, r)\<close> be the first entry of the
  response table, in its iteration order, whose key is a prefix of the written data \<open>d\<close>:
  no key before it is a prefix of \<open>d\<close>, and the entries after it are arbitrary. Then
  \<^verbatim>\<open>write(d)\<close> returns \<^verbatim>\<open>len(d)\<close> and appends exactly \<open>r\<close> to the read buffer, once; no
  response of a later entry is applied, whether its key matches or not.
\<close>

theorem write_first_match:
  assumes "connected s"
    and "response_map s = pre @ (k, r) # post"
    and "\<forall>(k', r') \<in> set pre. \<not> startswith d k'"
    and "startswith d k"
  shows "write s d = (Inr (int (length d)), s\<lparr>read_buffer := read_buffer s @ r\<rparr>)"
  using assms by (simp add: write_def scan_first_match)

theorem write_first_match_witness:
  "connected two_keys
   \<and> response_map two_keys = [] @ ([1], [0xAA]) # [([1, 2], [0xBB])]
   \<and> startswith [1, 2] [1]
   \<and> write two_keys [1, 2] = (Inr 2, two_keys\<lparr>read_buffer := [0xAA]\<rparr>)"
  using write_first_match [of two_keys "[]" "[1]" "[0xAA]" "[([1, 2], [0xBB])]" "[1, 2]"]
  by (simp add: two_keys_eq startswith_def)

text \<open>
  Claim C3. On a connected handler \<^verbatim>\<open>write(d)\<close> returns \<^verbatim>\<open>len(d)\<close> whether or not a
  response matched, and when no registered key is a prefix of \<open>d\<close> the read buffer, and
  with it the whole handler, is unchanged.
\<close>

theorem write_returns_len:
  assumes "connected s"
  shows "fst (write s d) = Inr (int (length d))
         \<and> ((\<forall>(k, r) \<in> set (response_map s). \<not> startswith d k) \<longrightarrow>
              read_buffer (snd (write s d)) = read_buffer s \<and> snd (write s d) = s)"
  using assms by (auto simp: write_def scan_no_match split: prod.split)

theorem write_returns_len_witness:
  "connected two_keys
   \<and> fst (write two_keys [1, 2]) = Inr 2
   \<and> \<not> startswith [7, 1] [1] \<and> \<not> startswith [7, 1] [1, 2]
   \<and> write two_keys [7, 1] = (Inr 2, two_keys)"
  using write_returns_len [of two_keys "[1, 2]"] write_returns_len [of two_keys "[7, 1]"]
  by (simp add: two_keys_eq startswith_def prod_eq_iff)

subsection \<open>The connection flag\<close>

text \<open>
  Claim C4. \<^verbatim>\<open>write\<close> and \<^verbatim>\<open>read\<close> raise the not-connected \<^verbatim>\<open>RuntimeError\<close> exactly when the
  handler is disconnected, and the handler after that raise is the handler before the
  call (flag, identifier, response table and read buffer). A freshly constructed handler
  is disconnected, so \<^verbatim>\<open>write\<close> on it raises. Moreover \<^verbatim>\<open>write\<close> raises nothing else, and
  neither does \<^verbatim>\<open>read\<close> for a size below \<open>10 ^ 4300\<close>.
\<close>

theorem not_connected_iff:
  "(fst (write s d) = Inl RuntimeError \<longleftrightarrow> \<not> connected s)
   \<and> (fst (read s n) = Inl RuntimeError \<longleftrightarrow> \<not> connected s)
   \<and> (isl (fst (write s d)) \<longleftrightarrow> \<not> connected s)
   \<and> (n < 10 ^ int_max_str_digits \<longrightarrow> (isl (fst (read s n)) \<longleftrightarrow> \<not> connected s))
   \<and> (\<not> connected s \<longrightarrow>
        write s d = (Inl RuntimeError, s) \<and> read s n = (Inl RuntimeError, s))
   \<and> write (init p) d = (Inl RuntimeError, init p)"
proof -
  have w: "fst (write s d) = Inl RuntimeError \<longleftrightarrow> \<not> connected s"
    by (simp add: write_def split: prod.split)
  have wi: "isl (fst (write s d)) \<longleftrightarrow> \<not> connected s"
    by (simp add: write_def split: prod.split)
  have r: "fst (read s n) = Inl RuntimeError \<longleftrightarrow> \<not> connected s"
    by (auto simp: read_def Let_def format_int_def split: sum.splits if_splits)
  have ri: "isl (fst (read s n)) \<longleftrightarrow> \<not> connected s" if "n < 10 ^ int_max_str_digits"
  proof (cases "connected s")
    case True
    show ?thesis
    proof (cases "int (length (read_buffer s)) < n")
      case short: True
      then show ?thesis using True that by (simp add: read_short)
    next
      case False
      then show ?thesis using True by (simp add: read_def)
    qed
  next
    case False
    then show ?thesis by (simp add: read_def)
  qed
  have u: "write s d = (Inl RuntimeError, s) \<and> read s n = (Inl RuntimeError, s)"
    if "\<not> connected s"
    using that by (simp add: write_def read_def)
  have i: "write (init p) d = (Inl RuntimeError, init p)"
    by (simp add: write_def init_def)
  from w wi r ri u i show ?thesis by blast
qed

theorem not_connected_iff_witness:
  "\<not> connected (close two_keys)
   \<and> (1::int) < 10 ^ int_max_str_digits
   \<and> write (close two_keys) [1, 2] = (Inl RuntimeError, close two_keys)
   \<and> read (close two_keys) 1 = (Inl RuntimeError, close two_keys)
   \<and> fst (write two_keys [1, 2]) \<noteq> Inl RuntimeError
   \<and> fst (read two_keys 1) \<noteq> Inl RuntimeError
   \<and> \<not> isl (fst (write two_keys [1, 2]))
   \<and> \<not> isl (fst (read two_keys 1))"
proof -
  have l: "(1::int) < 10 ^ int_max_str_digits"
    using str_limit_large by simp
  have c: "connected two_keys" "\<not> connected (close two_keys)"
    by (simp_all add: two_keys_eq close_def)
  from not_connected_iff [of "close two_keys" "[1, 2]" 1 None]
       not_connected_iff [of two_keys "[1, 2]" 1 None] l c
  show ?thesis by simp
qed

text \<open>
  Claim C5. For every handler, \<^verbatim>\<open>close()\<close> clears the connection flag and empties the read
  buffer; after \<^verbatim>\<open>close()\<close> then \<^verbatim>\<open>open(...)\<close> the read buffer is empty and the response table
  is the one from before the cycle.
\<close>

theorem close_then_open:
  "connected (close s) = False
   \<and> read_buffer (close s) = []
   \<and> response_map (close s) = response_map s
   \<and> connected (open (close s) p)
   \<and> read_buffer (open (close s) p) = []
   \<and> response_map (open (close s) p) = response_map s"
  by (simp add: close_def open_def split: option.split)

text \<open>
  Claim C8, as stated: every identifier supplied to \<^verbatim>\<open>open\<close> replaces the stored one. It
  fails for the empty string, which \<^verbatim>\<open>if port:\<close> treats as no identifier: the stored
  identifier stays.
\<close>

theorem open_empty_identifier_counterexample:
  "port (open (init None) (Some [])) = ''MOCK_PORT''
   \<and> port (open (init None) (Some [])) \<noteq> []"
  by (simp add: open_def init_def)

text \<open>
  Claim C8, amended. \<^verbatim>\<open>open\<close> has no raising path and sets the connection flag; a
  non-empty identifier replaces the stored one, and with no identifier or the empty
  string the stored identifier is unchanged. The response table and the read buffer are
  untouched, opening twice with the same argument is the same as opening once, and a
  second \<^verbatim>\<open>open\<close> changes at most the identifier.
\<close>

theorem open_sets_connected:
  "connected (open s p)
   \<and> port (open s p) = (case p of None \<Rightarrow> port s | Some q \<Rightarrow> if q = [] then port s else q)
   \<and> response_map (open s p) = response_map s
   \<and> read_buffer (open s p) = read_buffer s
   \<and> open (open s p) p = open s p
   \<and> open (open s p) q = (open s p)\<lparr>port := port (open (open s p) q)\<rparr>"
  by (simp add: open_def split: option.split)

subsection \<open>Typed accessors\<close>

lemma snd_discard: "snd (discard x) = snd x"
  by (cases x; cases "fst x") auto


lemma fst_discard_Inl: "fst (discard x) = Inl e \<longleftrightarrow> fst x = Inl e"
  by (cases x; cases "fst x") auto

lemma write_raises_only_RuntimeError: "fst (write s d) = Inl e \<Longrightarrow> e = RuntimeError"
  by (auto simp: write_def split: if_splits prod.splits)








text \<open>
  Claim C9. On a connected handler whose read buffer holds fewer than two bytes,
  \<^verbatim>\<open>read_int()\<close> returns 0 without raising and leaves the buffer empty; with exactly one
  byte buffered, that byte is consumed and dropped.
\<close>

theorem read_int_short:
  assumes "connected s" and "length (read_buffer s) < 2"
  shows "read_int s = (Inr 0, s\<lparr>read_buffer := []\<rparr>)"
proof -
  have "(2::int) < 10 ^ int_max_str_digits"
    using str_limit_large by simp
  with assms have "read s 2 = (Inr (read_buffer s), s\<lparr>read_buffer := []\<rparr>)"
    by (intro read_short) simp_all
  with assms(2) show ?thesis
    by (simp add: read_int_def)
qed

theorem read_int_short_witness:
  "connected (inject_data fresh_open [7])
   \<and> length (read_buffer (inject_data fresh_open [7])) = 1
   \<and> read_int (inject_data fresh_open [7]) = (Inr 0, fresh_open)
   \<and> read_buffer fresh_open = []"
  using read_int_short [of "inject_data fresh_open [7]"]
  by (simp add: inject_data_def fresh_open_eq)

text \<open>
  Claim C7, as stated: \<^verbatim>\<open>send_byte\<close> raises a type error for every input other than an
  integer in \<open>0 .. 255\<close> or a single-byte sequence. It fails on a connected handler for
  the two-byte \<^verbatim>\<open>b"\x01\x02"\<close>, which is passed to \<^verbatim>\<open>write\<close> and accepted, and for the
  integer 256, where \<^verbatim>\<open>bytes([256])\<close> raises a value error.
\<close>

theorem send_byte_type_error_counterexample:
  "connected fresh_open
   \<and> fst (send_byte fresh_open (PyBytes [1, 2])) = Inr ()
   \<and> fst (send_byte fresh_open (PyInt 256)) = Inl ValueError"
  by (simp add: fresh_open_eq write_def bytes_of_int_def)

text \<open>
  Claim C7, amended. \<^verbatim>\<open>send_byte(val)\<close> accepts exactly the integers in \<open>0 .. 255\<close> and
  the \<^verbatim>\<open>bytes\<close> objects, of any length, and only on a connected handler. An integer in
  \<open>0 .. 255\<close> is written as the one byte of that value, and a \<^verbatim>\<open>bytes\<close> object is handed
  whole to \<^verbatim>\<open>write\<close>, so a single-byte sequence is written as one byte; the count that
  \<^verbatim>\<open>write\<close> returns is dropped, and on a disconnected handler \<^verbatim>\<open>write\<close>'s not-connected
  error comes through. Every other input is rejected with the handler unchanged: an
  integer outside \<open>0 .. 255\<close> with a value error, and a value that is neither an \<^verbatim>\<open>int\<close>
  nor a \<^verbatim>\<open>bytes\<close> object with a type error, which is raised in no other case.
\<close>

theorem send_byte_shapes:
  "send_byte s (PyInt v) =
     (if 0 \<le> v \<and> v < 256 then discard (write s [word_of_int v]) else (Inl ValueError, s))
   \<and> (0 \<le> v \<and> v < 256 \<longrightarrow> uint (word_of_int v :: byte) = v)
   \<and> send_byte s (PyBytes d) = discard (write s d)
   \<and> discard (write s d) =
       (if connected s then (Inr (), snd (write s d)) else (Inl RuntimeError, s))
   \<and> (\<not> isinstance_int x \<and> \<not> isinstance_bytes x \<longrightarrow> send_byte s x = (Inl TypeError, s))
   \<and> (fst (send_byte s x) = Inl TypeError
        \<longleftrightarrow> \<not> isinstance_int x \<and> \<not> isinstance_bytes x)
   \<and> (fst (send_byte s x) = Inr ()
        \<longleftrightarrow> connected s \<and>
            (case x of PyInt i \<Rightarrow> 0 \<le> i \<and> i < 256 | PyBytes b \<Rightarrow> True | _ \<Rightarrow> False))"
proof -
  have dw: "discard (write s' d') =
              (if connected s' then (Inr (), snd (write s' d')) else (Inl RuntimeError, s'))"
    for s' d'
    by (simp add: write_def split: prod.split)
  have a: "send_byte s (PyInt v) =
     (if 0 \<le> v \<and> v < 256 then discard (write s [word_of_int v]) else (Inl ValueError, s))"
    by (simp add: bytes_of_int_def)
  have g: "0 \<le> v \<and> v < 256 \<longrightarrow> uint (word_of_int v :: byte) = v"
    by (simp add: uint_word_of_int take_bit_eq_mod)
  have b: "send_byte s (PyBytes d) = discard (write s d)"
    by simp
  have t: "\<not> isinstance_int x \<and> \<not> isinstance_bytes x \<longrightarrow> send_byte s x = (Inl TypeError, s)"
    by (cases x) simp_all
  have e: "fst (send_byte s x) = Inl TypeError
             \<longleftrightarrow> \<not> isinstance_int x \<and> \<not> isinstance_bytes x"
    by (cases x) (simp_all add: bytes_of_int_def dw)
  have f: "fst (send_byte s x) = Inr ()
             \<longleftrightarrow> connected s \<and>
                 (case x of PyInt i \<Rightarrow> 0 \<le> i \<and> i < 256 | PyBytes b \<Rightarrow> True | _ \<Rightarrow> False)"
    by (cases x) (simp_all add: bytes_of_int_def dw)
  from a g b dw [of s d] t e f show ?thesis
    by (intro conjI)
qed

theorem send_byte_shapes_witness:
  "send_byte fresh_open (PyInt 255) = (Inr (), fresh_open)
   \<and> send_byte fresh_open (PyBytes [9]) = (Inr (), fresh_open)
   \<and> send_byte fresh_open (PyBytes [1, 2]) = (Inr (), fresh_open)
   \<and> send_byte fresh_open (PyInt 256) = (Inl ValueError, fresh_open)
   \<and> send_byte fresh_open (PyInt (- 1)) = (Inl ValueError, fresh_open)
   \<and> send_byte (init None) (PyInt 0) = (Inl RuntimeError, init None)
   \<and> send_byte fresh_open (PyStr ''a'') = (Inl TypeError, fresh_open)
   \<and> send_byte fresh_open (PyBytearray [9]) = (Inl TypeError, fresh_open)
   \<and> send_byte fresh_open PyNone = (Inl TypeError, fresh_open)"
  using send_byte_shapes [of fresh_open 255 "[9]" "PyStr ''a''"]
        send_byte_shapes [of fresh_open 256 "[1, 2]" "PyBytearray [9]"]
        send_byte_shapes [of fresh_open "- 1" "[9]" PyNone]
        send_byte_shapes [of "init None" 0 "[9]" PyNone]
  by (simp add: fresh_open_eq init_def write_def)

subsection \<open>The response table\<close>

lemma response_map_write: "response_map (snd (write s d)) = response_map s"
  by (simp add: write_def split: prod.split)

lemma response_map_read: "response_map (snd (read s n)) = response_map s"
  by (simp add: read_def Let_def split: sum.split)

lemma response_map_send_byte: "response_map (snd (send_byte s x)) = response_map s"
  by (cases x) (simp_all add: snd_discard response_map_write split: sum.split)

lemma response_map_send_int: "response_map (snd (send_int s v)) = response_map s"
  by (simp add: send_int_def snd_discard response_map_write split: sum.split)

lemma response_map_read_byte: "response_map (snd (read_byte s)) = response_map s"
  using response_map_read [of s 1]
  by (auto simp: read_byte_def split: prod.splits sum.splits list.splits)

lemma response_map_read_int: "response_map (snd (read_int s)) = response_map s"
  using response_map_read [of s 2]
  by (auto simp: read_int_def split: prod.splits sum.splits)

text \<open>
  Claim C10. Every method other than \<^verbatim>\<open>register_response\<close> leaves the response table as it
  was, on its normal return and on each of its raises: the handler after the call, which
  the model gives in both cases, has the table of the handler before it.
\<close>

theorem response_map_unchanged:
  "response_map (open s p) = response_map s
   \<and> response_map (close s) = response_map s
   \<and> response_map (snd (write s d)) = response_map s
   \<and> response_map (snd (read s n)) = response_map s
   \<and> response_map (clear_buffer s) = response_map s
   \<and> response_map (snd (send_byte s x)) = response_map s
   \<and> response_map (snd (send_int s v)) = response_map s
   \<and> response_map (snd (read_byte s)) = response_map s
   \<and> response_map (snd (read_int s)) = response_map s
   \<and> response_map (snd (get_ack s)) = response_map s
   \<and> response_map (inject_data s d) = response_map s"
  by (simp add: response_map_write response_map_read response_map_send_byte
      response_map_send_int response_map_read_byte response_map_read_int
      open_def close_def clear_buffer_def get_ack_def inject_data_def split: option.split)

end
